theory Spec2Isabelle
  imports Complex_Main "HOL-Library.AList" "HOL-Library.Char_ord" "HOL-Library.List_Lexorder"
begin

section \<open>Custom Promotional Scheme: data model\<close>

text \<open>
  The repository has two modules: the document controller with the submit hook
  (\<^verbatim>\<open>custom_promotional_scheme.py\<close>) and the script report
  (\<^verbatim>\<open>custom_promotional_scheme_report.py\<close>). The controller is embedded function by
  function; of the report, the extractors, the totals dict and the row building of
  \<^verbatim>\<open>get_data\<close>. Python floats are read as real numbers (\<^verbatim>\<open>flt\<close> without a precision
  is the identity on them), so sums and products are the exact ones; comparisons are
  those of the values. \<^verbatim>\<open>frappe.msgprint\<close> only notifies the user and is left out.
\<close>

subsection \<open>Python values of child-row fields\<close>

datatype pyval = PNone | PStr string | PInt int

text \<open>Python truthiness: \<^verbatim>\<open>None\<close>, the empty string and \<^verbatim>\<open>0\<close> are false.\<close>

fun truthy :: "pyval \<Rightarrow> bool" where
  "truthy PNone = False"
| "truthy (PStr s) = (s \<noteq> [])"
| "truthy (PInt i) = (i \<noteq> 0)"

fun digits_of :: "nat \<Rightarrow> string" where
  "digits_of n =
     (if n < 10 then [char_of (48 + n)]
      else digits_of (n div 10) @ [char_of (48 + n mod 10)])"

text \<open>\<^verbatim>\<open>str(v)\<close>.\<close>

fun str_of :: "pyval \<Rightarrow> string" where
  "str_of PNone = ''None''"
| "str_of (PStr s) = s"
| "str_of (PInt i) = (if i < 0 then CHR ''-'' # digits_of (nat (- i)) else digits_of (nat i))"

text \<open>
  A child-table field of a scheme document holds either a plain list of strings (some
  multiselect styles) or a list of dict-like rows; a row is kept as an association list,
  since the fallback of the extractor walks \<^verbatim>\<open>row_dict.items()\<close> in order. An absent field
  (\<^verbatim>\<open>doc.get(fieldname) or []\<close>) is the empty list of rows.
\<close>

type_synonym row_dict = "(string \<times> pyval) list"

datatype child_rows = StrRows "string list" | DictRows "row_dict list"

text \<open>Truthiness of the field itself: a non-empty list.\<close>

fun has_rows :: "child_rows \<Rightarrow> bool" where
  "has_rows (StrRows vs) = (vs \<noteq> [])"
| "has_rows (DictRows rs) = (rs \<noteq> [])"

subsection \<open>Documents\<close>

text \<open>Dates are compared as dates (\<^verbatim>\<open>getdate\<close>): a date is its day ordinal.\<close>

type_synonym date = int

record scheme =
  sname :: string
  scheme_name :: "string option"
  select_the_party :: "string option"
  apply_on :: "string option"
  type_of_promo_validation :: "string option"
  valid_from :: "date option"
  valid_to :: "date option"
  minimum_amount :: "real option"
  discount_percentage :: "real option"
  minimum_quantity :: "real option"
  free_quantity :: "real option"
  customer :: child_rows
  customer_group :: child_rows
  territory :: child_rows
  supplier :: child_rows
  supplier_group :: child_rows
  promotional_scheme_on_item_code :: child_rows
  promotional_scheme_on_item_group :: child_rows

record invoice_item =
  item_code :: "string option"
  item_name :: "string option"
  qty :: "real option"
  rate :: "real option"
  amount :: "real option"
  base_rate :: "real option"
  base_amount :: "real option"
  base_net_amount :: "real option"
  is_free_item :: "int option"
  it_discount_percentage :: "real option"
  promotional_scheme_applied :: "string option"

record invoice =
  inv_doctype :: string
  inv_customer :: "string option"
  inv_customer_group :: "string option"
  inv_territory :: "string option"
  inv_supplier :: "string option"
  inv_supplier_group :: "string option"
  inv_items :: "invoice_item list"

text \<open>\<^verbatim>\<open>flt(x or 0)\<close> and \<^verbatim>\<open>flt(x)\<close> on an optional number: a missing one is 0.\<close>

fun flt :: "real option \<Rightarrow> real" where
  "flt None = 0"
| "flt (Some x) = x"

text \<open>\<^verbatim>\<open>not x\<close> on an optional number or string.\<close>

fun falsy_num :: "real option \<Rightarrow> bool" where
  "falsy_num None = True"
| "falsy_num (Some x) = (x = 0)"

fun falsy_str :: "string option \<Rightarrow> bool" where
  "falsy_str None = True"
| "falsy_str (Some s) = (s = [])"

section \<open>The document controller\<close>

subsection \<open>Validation on save\<close>

datatype error = ValidationError string

definition validate_apply_on_exclusivity :: "scheme \<Rightarrow> error + unit" where
  "validate_apply_on_exclusivity s =
     (if apply_on s = Some ''Item Code'' \<and> has_rows (promotional_scheme_on_item_group s)
      then Inl (ValidationError ''You selected 'Item Code' but added rows in 'Promotional scheme on item group'. Please clear them.'')
      else if apply_on s = Some ''Item Group'' \<and> has_rows (promotional_scheme_on_item_code s)
      then Inl (ValidationError ''You selected 'Item Group' but added rows in 'Promotional scheme on item code'. Please clear them.'')
      else Inr ())"

definition validate_dates :: "scheme \<Rightarrow> error + unit" where
  "validate_dates s =
     (case valid_from s of
        None \<Rightarrow> Inr ()
      | Some f \<Rightarrow>
          (case valid_to s of
             None \<Rightarrow> Inr ()
           | Some t \<Rightarrow>
               if f > t then Inl (ValidationError ''Valid From date cannot be later than Valid To date.'')
               else Inr ()))"

definition validate_condition_fields :: "scheme \<Rightarrow> error + unit" where
  "validate_condition_fields s =
     (if type_of_promo_validation s = Some ''Based on Minimum Amount'' then
        (if falsy_num (minimum_amount s) \<or> falsy_num (discount_percentage s)
         then Inl (ValidationError ''Please specify both Minimum Amount and Discount Percentage.'')
         else Inr ())
      else if type_of_promo_validation s = Some ''Based on Minimum Quantity'' then
        (if falsy_num (minimum_quantity s) \<or> falsy_num (free_quantity s)
         then Inl (ValidationError ''Please specify both Minimum Quantity and Free Quantity.'')
         else Inr ())
      else Inr ())"

text \<open>The three checks run in the order of the source; the first that throws ends the save.\<close>

definition validate :: "scheme \<Rightarrow> error + unit" where
  "validate s =
     (case validate_dates s of
        Inl e \<Rightarrow> Inl e
      | Inr _ \<Rightarrow>
          (case validate_condition_fields s of
             Inl e \<Rightarrow> Inl e
           | Inr _ \<Rightarrow> validate_apply_on_exclusivity s))"

subsection \<open>Extraction of scope values\<close>

definition meta_keys :: "string list" where
  "meta_keys = [''idx'', ''name'', ''parent'', ''parentfield'', ''parenttype'', ''doctype'']"

text \<open>The inner \<^verbatim>\<open>for k in possible_keys\<close> loop: the first key present with a truthy value.\<close>

fun first_key_value :: "row_dict \<Rightarrow> string list \<Rightarrow> pyval option" where
  "first_key_value row [] = None"
| "first_key_value row (k # ks) =
     (case map_of row k of
        Some v \<Rightarrow> if truthy v then Some v else first_key_value row ks
      | None \<Rightarrow> first_key_value row ks)"

text \<open>The \<^verbatim>\<open>else\<close> of that loop: the first non-meta field with a truthy value.\<close>

fun fallback_value :: "row_dict \<Rightarrow> pyval option" where
  "fallback_value [] = None"
| "fallback_value ((k2, v2) # rest) =
     (if k2 \<in> set meta_keys then fallback_value rest
      else if truthy v2 then Some v2
      else fallback_value rest)"

definition row_value :: "row_dict \<Rightarrow> string list \<Rightarrow> pyval option" where
  "row_value row possible_keys =
     (case first_key_value row possible_keys of
        Some v \<Rightarrow> Some v
      | None \<Rightarrow> fallback_value row)"

text \<open>
  \<^verbatim>\<open>_extract_values_from_child_rows\<close> of the controller module. A list of strings is
  taken whole (empty strings included); a row without any usable value adds nothing.
\<close>

fun extract_values_from_child_rows :: "child_rows \<Rightarrow> string list \<Rightarrow> string set" where
  "extract_values_from_child_rows (StrRows vs) possible_keys = set vs"
| "extract_values_from_child_rows (DictRows rs) possible_keys =
     set (map str_of (List.map_filter (\<lambda>row. row_value row possible_keys) rs))"

text \<open>
  The item catalog, as \<^verbatim>\<open>frappe.get_all("Item", filters={"item_group": ["in", ...]},
  pluck="name")\<close> reads it: the names of the items whose group is one of the given ones.
\<close>

record item_entry =
  item_id :: string
  item_group :: string

definition items_in_groups :: "item_entry list \<Rightarrow> string set \<Rightarrow> string list" where
  "items_in_groups catalog groups = map item_id (filter (\<lambda>e. item_group e \<in> groups) catalog)"

definition extract_item_codes_from_scheme :: "item_entry list \<Rightarrow> scheme \<Rightarrow> string set" where
  "extract_item_codes_from_scheme catalog s =
     (let item_code_vals =
            extract_values_from_child_rows (promotional_scheme_on_item_code s) [''item_code'', ''item''];
          item_group_vals =
            extract_values_from_child_rows (promotional_scheme_on_item_group s) [''item_group'', ''group'']
      in if item_group_vals \<noteq> {}
         then item_code_vals \<union> set (items_in_groups catalog item_group_vals)
         else item_code_vals)"

record party_values =
  customers :: "string set"
  customer_groups :: "string set"
  territories :: "string set"
  suppliers :: "string set"
  supplier_groups :: "string set"

definition extract_party_values_from_scheme :: "scheme \<Rightarrow> party_values" where
  "extract_party_values_from_scheme s =
     \<lparr> customers = extract_values_from_child_rows (customer s) [''customer'', ''item'', ''value''],
       customer_groups =
         extract_values_from_child_rows (customer_group s) [''customer_group'', ''item'', ''value'', ''group''],
       territories = extract_values_from_child_rows (territory s) [''territory'', ''item'', ''value''],
       suppliers = extract_values_from_child_rows (supplier s) [''supplier'', ''item'', ''value''],
       supplier_groups =
         extract_values_from_child_rows (supplier_group s) [''supplier_group'', ''item'', ''value'', ''group''] \<rparr>"

subsection \<open>Party match\<close>

text \<open>
  One declared dimension of \<^verbatim>\<open>_invoice_party_matches\<close>: it fails when the set is
  non-empty and the invoice's attribute is missing, empty or not a member.
\<close>

definition dimension_fails :: "string set \<Rightarrow> string option \<Rightarrow> bool" where
  "dimension_fails declared attr =
     (declared \<noteq> {} \<and> (case attr of None \<Rightarrow> True | Some a \<Rightarrow> a = [] \<or> a \<notin> declared))"

definition invoice_party_matches :: "invoice \<Rightarrow> party_values \<Rightarrow> bool" where
  "invoice_party_matches doc parties_dict =
     (let has_any_party_limit =
            (customers parties_dict \<noteq> {} \<or> customer_groups parties_dict \<noteq> {}
             \<or> territories parties_dict \<noteq> {} \<or> suppliers parties_dict \<noteq> {}
             \<or> supplier_groups parties_dict \<noteq> {})
      in if \<not> has_any_party_limit then True
         else if inv_doctype doc = ''Sales Invoice''
                 \<and> (dimension_fails (customers parties_dict) (inv_customer doc)
                    \<or> dimension_fails (customer_groups parties_dict) (inv_customer_group doc)
                    \<or> dimension_fails (territories parties_dict) (inv_territory doc))
         then False
         else if inv_doctype doc = ''Purchase Invoice''
                 \<and> (dimension_fails (suppliers parties_dict) (inv_supplier doc)
                    \<or> dimension_fails (supplier_groups parties_dict) (inv_supplier_group doc))
         then False
         else True)"

subsection \<open>Effects on the invoice\<close>

text \<open>
  The matched items of the hook are the line-item objects of \<^verbatim>\<open>doc.items\<close> themselves,
  so a change made through the matched list is a change of the invoice. The model keeps
  the matched items as positions in \<^verbatim>\<open>inv_items\<close>.
\<close>

definition discount_line :: "real \<Rightarrow> string \<Rightarrow> invoice_item \<Rightarrow> invoice_item" where
  "discount_line discount_pct scheme_id it =
     (let original_rate = flt (rate it);
          discount_value = original_rate * (discount_pct / 100)
      in it\<lparr> rate := Some (original_rate - discount_value),
             it_discount_percentage := Some discount_pct,
             promotional_scheme_applied := Some scheme_id \<rparr>)"

definition apply_discount_to_invoice :: "invoice \<Rightarrow> nat list \<Rightarrow> real \<Rightarrow> string \<Rightarrow> invoice" where
  "apply_discount_to_invoice doc matching_items discount_pct scheme_id =
     doc\<lparr> inv_items :=
            foldl (\<lambda>its i. its[i := discount_line discount_pct scheme_id (its ! i)])
              (inv_items doc) matching_items \<rparr>"

definition new_row :: "invoice_item \<Rightarrow> real \<Rightarrow> string \<Rightarrow> invoice_item" where
  "new_row it free_qty scheme_id =
     \<lparr> item_code = item_code it,
       item_name = item_name it,
       qty = Some free_qty,
       rate = Some 0,
       amount = Some 0,
       base_rate = Some 0,
       base_amount = Some 0,
       base_net_amount = None,
       is_free_item = Some 1,
       it_discount_percentage = None,
       promotional_scheme_applied = Some scheme_id \<rparr>"

definition add_free_items_to_invoice :: "invoice \<Rightarrow> nat list \<Rightarrow> real \<Rightarrow> string \<Rightarrow> invoice" where
  "add_free_items_to_invoice doc matching_items free_qty scheme_id =
     foldl (\<lambda>d i. d\<lparr> inv_items := inv_items d @ [new_row (inv_items d ! i) free_qty scheme_id] \<rparr>)
       doc matching_items"

subsection \<open>The submit hook\<close>

text \<open>Step 2 of the hook: the positions of the invoice lines the scheme concerns.\<close>

definition matching_items_of :: "invoice \<Rightarrow> string set \<Rightarrow> nat list" where
  "matching_items_of doc item_codes =
     (if item_codes \<noteq> {}
      then filter (\<lambda>i. case item_code (inv_items doc ! i) of
                          None \<Rightarrow> False
                        | Some c \<Rightarrow> c \<in> item_codes)
             [0 ..< length (inv_items doc)]
      else [0 ..< length (inv_items doc)])"

text \<open>Step 3 of the hook: the threshold test and the effect.\<close>

definition apply_validation :: "invoice \<Rightarrow> nat list \<Rightarrow> scheme \<Rightarrow> invoice" where
  "apply_validation doc matching_items s =
     (if type_of_promo_validation s = Some ''Based on Minimum Amount'' then
        (let total_without_gst =
               sum_list (map (\<lambda>i. flt (base_net_amount (inv_items doc ! i))) matching_items)
         in if total_without_gst \<ge> flt (minimum_amount s) then
              (let discount_pct = flt (discount_percentage s)
               in if discount_pct > 0
                  then apply_discount_to_invoice doc matching_items discount_pct (sname s)
                  else doc)
            else doc)
      else if type_of_promo_validation s = Some ''Based on Minimum Quantity'' then
        (let total_qty = sum_list (map (\<lambda>i. flt (qty (inv_items doc ! i))) matching_items)
         in if total_qty \<ge> flt (minimum_quantity s) then
              (let free_qty = flt (free_quantity s)
               in if free_qty > 0
                  then add_free_items_to_invoice doc matching_items free_qty (sname s)
                  else doc)
            else doc)
      else doc)"

text \<open>The body of the loop over the active schemes, for one loaded scheme.\<close>

definition apply_scheme :: "item_entry list \<Rightarrow> invoice \<Rightarrow> scheme \<Rightarrow> invoice" where
  "apply_scheme catalog doc s =
     (let parties = extract_party_values_from_scheme s
      in if \<not> invoice_party_matches doc parties then doc
         else
           (let item_codes = extract_item_codes_from_scheme catalog s;
                matching_items = matching_items_of doc item_codes
            in if matching_items = [] then doc
               else apply_validation doc matching_items s))"

text \<open>
  The document store as the hook uses it: the names
  \<^verbatim>\<open>get_active_schemes_for_party\<close> returns for a side (the answer of
  \<^verbatim>\<open>frappe.get_all\<close>), \<^verbatim>\<open>frappe.get_doc\<close> (\<open>None\<close> where it raises) and the item
  catalog.
\<close>

record store =
  active_scheme_names :: "string \<Rightarrow> string list"
  get_doc :: "string \<Rightarrow> scheme option"
  item_catalog :: "item_entry list"

definition apply_promotional_schemes :: "store \<Rightarrow> invoice \<Rightarrow> invoice" where
  "apply_promotional_schemes st doc =
     (if inv_doctype doc \<noteq> ''Sales Invoice'' \<and> inv_doctype doc \<noteq> ''Purchase Invoice'' then doc
      else
        (let party_side = (if inv_doctype doc = ''Sales Invoice'' then ''Selling'' else ''Buying'')
         in foldl (\<lambda>d scheme_id. case get_doc st scheme_id of
                                     None \<Rightarrow> d
                                   | Some scheme_doc \<Rightarrow> apply_scheme (item_catalog st) d scheme_doc)
              doc (active_scheme_names st party_side)))"

section \<open>The report\<close>

subsection \<open>Extraction of scope values, as the report module has it\<close>

text \<open>
  The report has its own copies of the extractors. Its
  \<^verbatim>\<open>_extract_values_from_child_rows\<close> drops empty strings from a list of strings, and
  the closing \<^verbatim>\<open>set([str(i) for i in ... if i])\<close> of the two scheme extractors drops
  the empty string from a set: \<open>A - {[]}\<close>.
\<close>

fun report_extract_values_from_child_rows :: "child_rows \<Rightarrow> string list \<Rightarrow> string set" where
  "report_extract_values_from_child_rows (StrRows vs) possible_keys = set (filter (\<lambda>v. v \<noteq> []) vs)"
| "report_extract_values_from_child_rows (DictRows rs) possible_keys =
     set (map str_of (List.map_filter (\<lambda>row. row_value row possible_keys) rs))"

definition report_extract_item_codes_from_scheme :: "item_entry list \<Rightarrow> scheme \<Rightarrow> string set" where
  "report_extract_item_codes_from_scheme catalog s =
     (let item_code_vals =
            report_extract_values_from_child_rows (promotional_scheme_on_item_code s)
              [''item_code'', ''item''];
          item_group_vals =
            report_extract_values_from_child_rows (promotional_scheme_on_item_group s)
              [''item_group'', ''group''];
          item_codes =
            (if item_group_vals \<noteq> {}
             then item_code_vals \<union> set (items_in_groups catalog item_group_vals)
             else item_code_vals)
      in item_codes - {[]})"

text \<open>
  The party catalog, as the three \<^verbatim>\<open>frappe.get_all\<close> calls with an \<^verbatim>\<open>in\<close> filter and
  \<^verbatim>\<open>pluck="name"\<close> read it.
\<close>

record customer_entry =
  cust_id :: string
  cust_group :: string
  cust_territory :: string

record supplier_entry =
  sup_id :: string
  sup_group :: string

definition customers_in_groups :: "customer_entry list \<Rightarrow> string set \<Rightarrow> string list" where
  "customers_in_groups catalog groups = map cust_id (filter (\<lambda>e. cust_group e \<in> groups) catalog)"

definition customers_in_territories :: "customer_entry list \<Rightarrow> string set \<Rightarrow> string list" where
  "customers_in_territories catalog ts = map cust_id (filter (\<lambda>e. cust_territory e \<in> ts) catalog)"

definition suppliers_in_groups :: "supplier_entry list \<Rightarrow> string set \<Rightarrow> string list" where
  "suppliers_in_groups catalog groups = map sup_id (filter (\<lambda>e. sup_group e \<in> groups) catalog)"

definition report_extract_party_values_from_scheme ::
  "customer_entry list \<Rightarrow> supplier_entry list \<Rightarrow> scheme \<Rightarrow> party_values" where
  "report_extract_party_values_from_scheme ccat scat s =
     (let customers0 = report_extract_values_from_child_rows (customer s) [''customer'', ''value''];
          customer_groups0 =
            report_extract_values_from_child_rows (customer_group s) [''customer_group'', ''group''];
          territories0 = report_extract_values_from_child_rows (territory s) [''territory'', ''value''];
          suppliers0 = report_extract_values_from_child_rows (supplier s) [''supplier'', ''value''];
          supplier_groups0 =
            report_extract_values_from_child_rows (supplier_group s) [''supplier_group'', ''group''];
          customers1 =
            (if customer_groups0 \<noteq> {}
             then customers0 \<union> set (filter (\<lambda>c. c \<noteq> []) (customers_in_groups ccat customer_groups0))
             else customers0);
          customers2 =
            (if territories0 \<noteq> {}
             then customers1 \<union> set (filter (\<lambda>c. c \<noteq> []) (customers_in_territories ccat territories0))
             else customers1);
          suppliers1 =
            (if supplier_groups0 \<noteq> {}
             then suppliers0 \<union> set (filter (\<lambda>c. c \<noteq> []) (suppliers_in_groups scat supplier_groups0))
             else suppliers0)
      in \<lparr> customers = customers2 - {[]},
           customer_groups = customer_groups0 - {[]},
           territories = territories0 - {[]},
           suppliers = suppliers1 - {[]},
           supplier_groups = supplier_groups0 - {[]} \<rparr>)"

subsection \<open>Historical totals\<close>

text \<open>
  \<^verbatim>\<open>_get_totals_for_scheme\<close> sends one grouped query to the database and turns the
  answer into a dict keyed by (party, item code). The rows the database returns are the
  argument here; the dict is an association list in insertion order, a later row with
  the same key replacing the earlier value.
\<close>

record sql_row =
  r_party_name :: "string option"
  r_item_code :: "string option"
  r_total_amount :: "real option"
  r_total_qty :: "real option"

record totals =
  total_amount :: "real option"
  total_qty :: "real option"

text \<open>\<^verbatim>\<open>x or None\<close> on an optional string.\<close>

fun or_none :: "string option \<Rightarrow> string option" where
  "or_none None = None"
| "or_none (Some x) = (if x = [] then None else Some x)"

type_synonym totals_map = "((string option \<times> string option) \<times> totals) list"

definition get_totals_for_scheme :: "sql_row list \<Rightarrow> totals_map" where
  "get_totals_for_scheme rows =
     foldl (\<lambda>tm r. AList.update (or_none (r_party_name r), or_none (r_item_code r))
                     \<lparr> total_amount = Some (flt (r_total_amount r)),
                       total_qty = Some (flt (r_total_qty r)) \<rparr> tm)
       [] rows"

subsection \<open>Building the rows of one scheme\<close>

text \<open>\<^verbatim>\<open>str.strip()\<close>, for the white space of ASCII.\<close>

definition is_space :: "char \<Rightarrow> bool" where
  "is_space c = ((of_char c :: nat) \<in> {9, 10, 11, 12, 13, 28, 29, 30, 31, 32})"

definition strip :: "string \<Rightarrow> string" where
  "strip s = rev (dropWhile is_space (rev (dropWhile is_space s)))"

text \<open>\<^verbatim>\<open>x or ""\<close> and \<^verbatim>\<open>x or d\<close> on strings.\<close>

fun or_empty :: "string option \<Rightarrow> string" where
  "or_empty None = []"
| "or_empty (Some x) = x"

definition or_default :: "string option \<Rightarrow> string \<Rightarrow> string" where
  "or_default x d = (if falsy_str x then d else the x)"

text \<open>The eligibility test of a report cell.\<close>

definition eligible :: "scheme \<Rightarrow> real \<Rightarrow> real \<Rightarrow> bool" where
  "eligible s total_amount_v total_qty_v =
     (let validation_type = strip (or_empty (type_of_promo_validation s))
      in if validation_type = ''Based on Minimum Amount'' then
           (let min_amount = flt (minimum_amount s)
            in min_amount > 0 \<and> total_amount_v \<ge> min_amount)
         else if validation_type = ''Based on Minimum Quantity'' then
           (let min_qty = flt (minimum_quantity s)
            in min_qty > 0 \<and> total_qty_v \<ge> min_qty)
         else (total_amount_v > 0 \<or> total_qty_v > 0))"

record report_row =
  row_scheme_name :: string
  party_type :: string
  party_name :: string
  row_apply_on :: string
  item_or_group :: string
  row_minimum_amount :: real
  row_minimum_quantity :: real
  row_discount_percentage :: real
  row_free_quantity :: real
  row_valid_from :: "date option"
  row_valid_to :: "date option"
  invoice_amount :: real
  invoice_qty :: real
  eligibility_status :: string

text \<open>The body of the two nested loops: the row of one (party, item) cell.\<close>

definition make_row :: "scheme \<Rightarrow> totals_map \<Rightarrow> string \<Rightarrow> string \<Rightarrow> string option \<Rightarrow> report_row" where
  "make_row s tm party_type_v party_name_v item_code_v =
     (let key = (Some party_name_v, item_code_v);
          tot = (case map_of tm key of
                   None \<Rightarrow> \<lparr> total_amount = Some 0, total_qty = Some 0 \<rparr>
                 | Some v \<Rightarrow> v);
          total_amount_v = flt (total_amount tot);
          total_qty_v = flt (total_qty tot)
      in \<lparr> row_scheme_name = or_default (scheme_name s) (sname s),
           party_type = party_type_v,
           party_name = (if party_name_v = [] then ''All'' else party_name_v),
           row_apply_on = or_default (apply_on s) ''-'',
           item_or_group = or_default item_code_v ''-'',
           row_minimum_amount = flt (minimum_amount s),
           row_minimum_quantity = flt (minimum_quantity s),
           row_discount_percentage = flt (discount_percentage s),
           row_free_quantity = flt (free_quantity s),
           row_valid_from = valid_from s,
           row_valid_to = valid_to s,
           invoice_amount = total_amount_v,
           invoice_qty = total_qty_v,
           eligibility_status =
             (if eligible s total_amount_v total_qty_v then ''Eligible'' else ''Not Eligible'') \<rparr>)"

text \<open>The side of the scheme and its concrete parties (empty: the scheme applies to all).\<close>

definition resolve_parties :: "party_values \<Rightarrow> string option \<Rightarrow> string \<times> (string \<times> string) list" where
  "resolve_parties parties_dict select =
     (let party_side = strip (or_empty select)
      in if party_side = ''Selling'' then
           (''Selling'',
            if customers parties_dict \<noteq> {}
            then map (Pair ''Customer'') (sorted_list_of_set (customers parties_dict))
            else [])
         else if party_side = ''Buying'' then
           (''Buying'',
            if suppliers parties_dict \<noteq> {}
            then map (Pair ''Supplier'') (sorted_list_of_set (suppliers parties_dict))
            else [])
         else (''Selling'', []))"

text \<open>
  \<^verbatim>\<open>all_parties\<close>: the parties among the keys of the totals. Python builds a set and
  iterates over it in an order it does not specify; the model takes the order of first
  occurrence among the keys.
\<close>

definition all_parties :: "totals_map \<Rightarrow> string list" where
  "all_parties tm = remdups (List.map_filter (\<lambda>k. or_none (fst k)) (map fst tm))"

text \<open>The item cells of a scheme: its item codes in sorted order, or the single cell "all items".\<close>

definition resolved_items :: "item_entry list \<Rightarrow> scheme \<Rightarrow> string option list" where
  "resolved_items icat s =
     (let item_codes = report_extract_item_codes_from_scheme icat s
      in if item_codes \<noteq> {} then map Some (sorted_list_of_set item_codes) else [None])"

text \<open>
  The body of the loop of \<^verbatim>\<open>get_data\<close> over the schemes, for one loaded scheme and the
  answer \<open>rows\<close> of its totals query. The last step of \<^verbatim>\<open>get_data\<close>, the filters of the
  report form, only removes rows and is not part of the model.
\<close>

definition scheme_rows ::
  "customer_entry list \<Rightarrow> supplier_entry list \<Rightarrow> item_entry list \<Rightarrow> sql_row list \<Rightarrow> scheme
     \<Rightarrow> report_row list" where
  "scheme_rows ccat scat icat rows s =
     (let parties_dict = report_extract_party_values_from_scheme ccat scat s;
          party_side = fst (resolve_parties parties_dict (select_the_party s));
          parties0 = snd (resolve_parties parties_dict (select_the_party s));
          items = resolved_items icat s;
          totals_map = get_totals_for_scheme rows;
          parties =
            (if parties0 = [] then
               (if party_side = ''Selling''
                then map (Pair ''Customer'') (all_parties totals_map)
                else map (Pair ''Supplier'') (all_parties totals_map))
             else parties0)
      in concat (map (\<lambda>(party_type_v, party_name_v).
                        map (make_row s totals_map party_type_v party_name_v) items)
                   parties))"

section \<open>Sample documents\<close>

text \<open>Concrete documents on which the theorems below are instantiated.\<close>

definition blank_scheme :: scheme where
  "blank_scheme =
     \<lparr> sname = ''S1'', scheme_name = None, select_the_party = Some ''Selling'',
       apply_on = None, type_of_promo_validation = None, valid_from = None, valid_to = None,
       minimum_amount = None, discount_percentage = None, minimum_quantity = None,
       free_quantity = None, customer = DictRows [], customer_group = DictRows [],
       territory = DictRows [], supplier = DictRows [], supplier_group = DictRows [],
       promotional_scheme_on_item_code = DictRows [], promotional_scheme_on_item_group = DictRows [] \<rparr>"

definition blank_item :: invoice_item where
  "blank_item =
     \<lparr> item_code = None, item_name = None, qty = None, rate = None, amount = None,
       base_rate = None, base_amount = None, base_net_amount = None, is_free_item = None,
       it_discount_percentage = None, promotional_scheme_applied = None \<rparr>"

definition blank_invoice :: invoice where
  "blank_invoice =
     \<lparr> inv_doctype = ''Sales Invoice'', inv_customer = None, inv_customer_group = None,
       inv_territory = None, inv_supplier = None, inv_supplier_group = None, inv_items = [] \<rparr>"

definition ex_line :: invoice_item where
  "ex_line = blank_item\<lparr> item_code := Some ''ITEM-A'', item_name := Some ''Item A'',
                qty := Some 50, rate := Some 100, base_net_amount := Some 1000 \<rparr>"

definition ex_invoice :: invoice where
  "ex_invoice = blank_invoice\<lparr> inv_customer := Some ''CUST-1'', inv_items := [ex_line] \<rparr>"

definition ex_amount_scheme :: scheme where
  "ex_amount_scheme =
     blank_scheme\<lparr> promotional_scheme_on_item_code := DictRows [[(''item_code'', PStr ''ITEM-A'')]],
       apply_on := Some ''Item Code'',
       type_of_promo_validation := Some ''Based on Minimum Amount'',
       minimum_amount := Some 1000, discount_percentage := Some 10 \<rparr>"


definition ex_sql :: "sql_row list" where
  "ex_sql =
     [\<lparr> r_party_name = Some ''CUST-1'', r_item_code = Some ''ITEM-A'',
        r_total_amount = Some 1200, r_total_qty = Some 3 \<rparr>,
      \<lparr> r_party_name = Some ''CUST-2'', r_item_code = Some ''ITEM-A'',
        r_total_amount = Some 900, r_total_qty = Some 2 \<rparr>]"

section \<open>Properties of the document controller\<close>

subsection \<open>Auxiliary facts\<close>

lemma isl_validate_dates:
  "isl (validate_dates s) \<longleftrightarrow> (\<exists>f t. valid_from s = Some f \<and> valid_to s = Some t \<and> f > t)"
  by (simp add: validate_dates_def split: option.split)

lemma isl_validate_condition_fields:
  "isl (validate_condition_fields s) \<longleftrightarrow>
     ((type_of_promo_validation s = Some ''Based on Minimum Amount''
          \<and> (falsy_num (minimum_amount s) \<or> falsy_num (discount_percentage s)))
      \<or> (type_of_promo_validation s = Some ''Based on Minimum Quantity''
          \<and> (falsy_num (minimum_quantity s) \<or> falsy_num (free_quantity s))))"
  by (simp add: validate_condition_fields_def)

lemma isl_validate_apply_on_exclusivity:
  "isl (validate_apply_on_exclusivity s) \<longleftrightarrow>
     ((apply_on s = Some ''Item Code'' \<and> has_rows (promotional_scheme_on_item_group s))
      \<or> (apply_on s = Some ''Item Group'' \<and> has_rows (promotional_scheme_on_item_code s)))"
  by (simp add: validate_apply_on_exclusivity_def)

lemma isl_validate:
  "isl (validate s) \<longleftrightarrow>
     (isl (validate_dates s) \<or> isl (validate_condition_fields s)
      \<or> isl (validate_apply_on_exclusivity s))"
  by (simp add: validate_def split: sum.split)








lemma add_free_fold:
  "\<forall>i\<in>set m. i < length (inv_items d) \<Longrightarrow>
     foldl (\<lambda>d i. d\<lparr> inv_items := inv_items d @ [new_row (inv_items d ! i) q sid] \<rparr>) d m
       = d\<lparr> inv_items := inv_items d @ map (\<lambda>i. new_row (inv_items d ! i) q sid) m \<rparr>"
proof (induction m arbitrary: d)
  case Nil
  then show ?case by simp
next
  case (Cons a m)
  let ?d' = "d\<lparr> inv_items := inv_items d @ [new_row (inv_items d ! a) q sid] \<rparr>"
  have in_range: "\<forall>i\<in>set m. i < length (inv_items ?d')"
    using Cons.prems by auto
  have same: "map (\<lambda>i. new_row ((inv_items d @ [new_row (inv_items d ! a) q sid]) ! i) q sid) m
                = map (\<lambda>i. new_row (inv_items d ! i) q sid) m"
    using Cons.prems by (auto simp: nth_append)
  show ?case
    by (simp add: Cons.IH [OF in_range] same)
qed



lemma apply_scheme_matched:
  "invoice_party_matches doc (extract_party_values_from_scheme s) \<Longrightarrow>
   matching_items_of doc (extract_item_codes_from_scheme catalog s) = m \<Longrightarrow> m \<noteq> [] \<Longrightarrow>
   apply_scheme catalog doc s = apply_validation doc m s"
  by (simp add: apply_scheme_def Let_def)

lemma blank_scheme_parties:
  "extract_party_values_from_scheme blank_scheme
     = \<lparr> customers = {}, customer_groups = {}, territories = {}, suppliers = {}, supplier_groups = {} \<rparr>"
  by (simp add: extract_party_values_from_scheme_def blank_scheme_def List.map_filter_simps)






subsection \<open>Party match\<close>

text \<open>
  Claim C1. A scheme whose extracted party scope is empty on all five dimensions
  (customers, customer groups, territories, suppliers, supplier groups) passes the party
  match of every invoice, whatever the invoice's party is.
\<close>

theorem party_scope_empty_matches:
  assumes "customers (extract_party_values_from_scheme s) = {}"
    and "customer_groups (extract_party_values_from_scheme s) = {}"
    and "territories (extract_party_values_from_scheme s) = {}"
    and "suppliers (extract_party_values_from_scheme s) = {}"
    and "supplier_groups (extract_party_values_from_scheme s) = {}"
  shows "invoice_party_matches doc (extract_party_values_from_scheme s)"
  using assms by (simp add: invoice_party_matches_def)

theorem party_scope_empty_matches_witness:
  "invoice_party_matches (blank_invoice\<lparr> inv_customer := Some ''CUST-9'' \<rparr>)
     (extract_party_values_from_scheme blank_scheme)"
  by (rule party_scope_empty_matches) (simp_all add: blank_scheme_parties)

text \<open>
  Claim C9. A Sales Invoice passes the party match of a scheme whose only party limits
  are suppliers or supplier groups (customers, customer groups and territories all
  empty); a Purchase Invoice passes the party match of a scheme whose only party limits
  are customers, customer groups or territories.
\<close>

theorem opposite_side_limits_match:
  "(inv_doctype doc = ''Sales Invoice''
      \<and> customers (extract_party_values_from_scheme s) = {}
      \<and> customer_groups (extract_party_values_from_scheme s) = {}
      \<and> territories (extract_party_values_from_scheme s) = {}
      \<and> (suppliers (extract_party_values_from_scheme s) \<noteq> {}
           \<or> supplier_groups (extract_party_values_from_scheme s) \<noteq> {})
     \<longrightarrow> invoice_party_matches doc (extract_party_values_from_scheme s))
   \<and> (inv_doctype doc = ''Purchase Invoice''
      \<and> suppliers (extract_party_values_from_scheme s) = {}
      \<and> supplier_groups (extract_party_values_from_scheme s) = {}
      \<and> (customers (extract_party_values_from_scheme s) \<noteq> {}
           \<or> customer_groups (extract_party_values_from_scheme s) \<noteq> {}
           \<or> territories (extract_party_values_from_scheme s) \<noteq> {})
     \<longrightarrow> invoice_party_matches doc (extract_party_values_from_scheme s))"
  by (simp add: invoice_party_matches_def dimension_fails_def)

theorem opposite_side_limits_match_witness:
  "invoice_party_matches ex_invoice
     (extract_party_values_from_scheme (blank_scheme\<lparr> supplier := StrRows [''SUP-1''] \<rparr>))
   \<and> invoice_party_matches
       (blank_invoice\<lparr> inv_doctype := ''Purchase Invoice'', inv_supplier := Some ''SUP-2'' \<rparr>)
       (extract_party_values_from_scheme (blank_scheme\<lparr> customer_group := StrRows [''Retail''] \<rparr>))"
  using opposite_side_limits_match [of ex_invoice "blank_scheme\<lparr> supplier := StrRows [''SUP-1''] \<rparr>"]
    opposite_side_limits_match
      [of "blank_invoice\<lparr> inv_doctype := ''Purchase Invoice'', inv_supplier := Some ''SUP-2'' \<rparr>"
          "blank_scheme\<lparr> customer_group := StrRows [''Retail''] \<rparr>"]
  by (simp add: extract_party_values_from_scheme_def blank_scheme_def ex_invoice_def
        blank_invoice_def List.map_filter_simps)

subsection \<open>Validation on save\<close>

text \<open>
  Claim C8. Saving a scheme is refused with an error exactly when the two validity dates
  are both present and out of order, or the item-scope mode conflicts with the declared
  rows, or the chosen rule lacks one of its two required non-zero fields; a scheme with
  none of these defects is accepted.
\<close>

theorem validate_raises_iff:
  "(isl (validate s) \<longleftrightarrow>
      ((\<exists>f t. valid_from s = Some f \<and> valid_to s = Some t \<and> f > t)
       \<or> (apply_on s = Some ''Item Code'' \<and> has_rows (promotional_scheme_on_item_group s))
       \<or> (apply_on s = Some ''Item Group'' \<and> has_rows (promotional_scheme_on_item_code s))
       \<or> (type_of_promo_validation s = Some ''Based on Minimum Amount''
           \<and> (falsy_num (minimum_amount s) \<or> falsy_num (discount_percentage s)))
       \<or> (type_of_promo_validation s = Some ''Based on Minimum Quantity''
           \<and> (falsy_num (minimum_quantity s) \<or> falsy_num (free_quantity s)))))
   \<and> (\<not> isl (validate s) \<longrightarrow> validate s = Inr ())"
proof
  show "isl (validate s) \<longleftrightarrow>
      ((\<exists>f t. valid_from s = Some f \<and> valid_to s = Some t \<and> f > t)
       \<or> (apply_on s = Some ''Item Code'' \<and> has_rows (promotional_scheme_on_item_group s))
       \<or> (apply_on s = Some ''Item Group'' \<and> has_rows (promotional_scheme_on_item_code s))
       \<or> (type_of_promo_validation s = Some ''Based on Minimum Amount''
           \<and> (falsy_num (minimum_amount s) \<or> falsy_num (discount_percentage s)))
       \<or> (type_of_promo_validation s = Some ''Based on Minimum Quantity''
           \<and> (falsy_num (minimum_quantity s) \<or> falsy_num (free_quantity s))))"
    unfolding isl_validate isl_validate_dates isl_validate_condition_fields
      isl_validate_apply_on_exclusivity
    by blast
  show "\<not> isl (validate s) \<longrightarrow> validate s = Inr ()"
    by (cases "validate s") simp_all
qed

theorem validate_raises_iff_witness:
  "isl (validate (blank_scheme\<lparr> valid_from := Some 20, valid_to := Some 10 \<rparr>))
   \<and> isl (validate (ex_amount_scheme\<lparr> discount_percentage := Some 0 \<rparr>))
   \<and> isl (validate (ex_amount_scheme\<lparr> promotional_scheme_on_item_group := StrRows [''Tools''] \<rparr>))
   \<and> validate ex_amount_scheme = Inr ()"
  using validate_raises_iff [of "blank_scheme\<lparr> valid_from := Some 20, valid_to := Some 10 \<rparr>"]
    validate_raises_iff [of "ex_amount_scheme\<lparr> discount_percentage := Some 0 \<rparr>"]
    validate_raises_iff [of "ex_amount_scheme\<lparr> promotional_scheme_on_item_group := StrRows [''Tools''] \<rparr>"]
    validate_raises_iff [of ex_amount_scheme]
  by (simp add: ex_amount_scheme_def blank_scheme_def)

subsection \<open>Threshold and effects\<close>





text \<open>
  Claim C7. Adding free goods with quantity \<open>free_qty\<close> appends, after the existing
  lines and in the order of the matched lines, one new line per matched line: it has the
  matched line's item code and item name, quantity \<open>free_qty\<close>, rate 0, amount 0 and the
  free-item marker set. The lines the invoice had before, the matched ones among them,
  are unchanged, and so is the rest of the invoice.
\<close>

theorem free_items_appended:
  assumes "\<forall>i\<in>set m. i < length (inv_items doc)"
  shows "add_free_items_to_invoice doc m free_qty sid
           = doc\<lparr> inv_items := inv_items doc @
                   map (\<lambda>i. \<lparr> item_code = item_code (inv_items doc ! i),
                             item_name = item_name (inv_items doc ! i),
                             qty = Some free_qty, rate = Some 0, amount = Some 0,
                             base_rate = Some 0, base_amount = Some 0, base_net_amount = None,
                             is_free_item = Some 1, it_discount_percentage = None,
                             promotional_scheme_applied = Some sid \<rparr>) m \<rparr>
       \<and> take (length (inv_items doc)) (inv_items (add_free_items_to_invoice doc m free_qty sid))
           = inv_items doc
       \<and> length (inv_items (add_free_items_to_invoice doc m free_qty sid))
           = length (inv_items doc) + length m"
proof -
  have "add_free_items_to_invoice doc m free_qty sid
          = doc\<lparr> inv_items := inv_items doc @ map (\<lambda>i. new_row (inv_items doc ! i) free_qty sid) m \<rparr>"
    unfolding add_free_items_to_invoice_def using assms by (rule add_free_fold)
  then show ?thesis by (simp add: new_row_def)
qed

theorem free_items_appended_witness:
  "add_free_items_to_invoice ex_invoice [0] 5 ''S2''
     = ex_invoice\<lparr> inv_items :=
         [ex_line,
          blank_item\<lparr> item_code := Some ''ITEM-A'', item_name := Some ''Item A'', qty := Some 5,
            rate := Some 0, amount := Some 0, base_rate := Some 0, base_amount := Some 0,
            is_free_item := Some 1, promotional_scheme_applied := Some ''S2'' \<rparr>] \<rparr>"
  using free_items_appended [of "[0]" ex_invoice 5 "''S2''"]
  by (simp add: ex_invoice_def ex_line_def blank_invoice_def blank_item_def)

section \<open>Properties of the report\<close>

subsection \<open>Auxiliary facts\<close>

lemma strip_amount [simp]: "strip ''Based on Minimum Amount'' = ''Based on Minimum Amount''"
  by (simp add: strip_def is_space_def)

lemma strip_quantity [simp]: "strip ''Based on Minimum Quantity'' = ''Based on Minimum Quantity''"
  by (simp add: strip_def is_space_def)

lemma totals_keys_foldl:
  "fst ` set (foldl (\<lambda>tm r. AList.update (kf r) (vf r) tm) tm0 rows) = fst ` set tm0 \<union> kf ` set rows"
  by (induction rows arbitrary: tm0) (auto simp: AList.dom_update)

lemma totals_keys:
  "fst ` set (get_totals_for_scheme rows)
     = (\<lambda>r. (or_none (r_party_name r), or_none (r_item_code r))) ` set rows"
  by (simp add: get_totals_for_scheme_def totals_keys_foldl)

lemma or_none_Some: "or_none x = Some p \<longleftrightarrow> x = Some p \<and> p \<noteq> []"
  by (cases x) auto

lemma set_map_filter_conv:
  "set (List.map_filter f xs) = {y. \<exists>x\<in>set xs. f x = Some y}"
  by (induction xs) (auto split: option.splits)

lemma all_parties_distinct: "distinct (all_parties tm)"
  by (simp add: all_parties_def)

lemma all_parties_set:
  "set (all_parties (get_totals_for_scheme rows))
     = {p. p \<noteq> [] \<and> (\<exists>r\<in>set rows. r_party_name r = Some p)}"
proof -
  have "set (all_parties (get_totals_for_scheme rows))
          = {p. \<exists>k \<in> fst ` set (get_totals_for_scheme rows). or_none (fst k) = Some p}"
    by (simp add: all_parties_def set_map_filter_conv)
  also have "\<dots> = {p. p \<noteq> [] \<and> (\<exists>r\<in>set rows. r_party_name r = Some p)}"
    unfolding totals_keys by (auto simp: or_none_Some)
  finally show ?thesis .
qed

lemma all_parties_nonempty: "p \<in> set (all_parties tm) \<Longrightarrow> p \<noteq> []"
  by (auto simp: all_parties_def set_map_filter_conv or_none_Some)

lemma make_row_cell:
  "party_name (make_row s tm pt pn ic) = (if pn = [] then ''All'' else pn)
   \<and> item_or_group (make_row s tm pt pn ic) = or_default ic ''-''
   \<and> party_type (make_row s tm pt pn ic) = pt"
  by (simp add: make_row_def Let_def)

lemma make_row_status:
  "eligibility_status (make_row s tm pt pn ic)
     = (if eligible s (invoice_amount (make_row s tm pt pn ic)) (invoice_qty (make_row s tm pt pn ic))
        then ''Eligible'' else ''Not Eligible'')"
  by (simp add: make_row_def Let_def)

lemma scheme_rows_elem:
  "r \<in> set (scheme_rows ccat scat icat rows s) \<Longrightarrow>
     \<exists>pt pn ic. r = make_row s (get_totals_for_scheme rows) pt pn ic"
  by (auto simp: scheme_rows_def Let_def)

lemma eligible_amount:
  "type_of_promo_validation s = Some ''Based on Minimum Amount'' \<Longrightarrow>
     eligible s a q \<longleftrightarrow> 0 < flt (minimum_amount s) \<and> flt (minimum_amount s) \<le> a"
  by (simp add: eligible_def Let_def)

lemma eligible_quantity:
  "type_of_promo_validation s = Some ''Based on Minimum Quantity'' \<Longrightarrow>
     eligible s a q \<longleftrightarrow> 0 < flt (minimum_quantity s) \<and> flt (minimum_quantity s) \<le> q"
  by (simp add: eligible_def Let_def)

lemma scheme_rows_unrestricted:
  assumes "snd (resolve_parties (report_extract_party_values_from_scheme ccat scat s)
                  (select_the_party s)) = []"
  shows "map (\<lambda>r. (party_name r, item_or_group r)) (scheme_rows ccat scat icat rows s)
           = List.product (all_parties (get_totals_for_scheme rows))
               (map (\<lambda>i. or_default i ''-'') (resolved_items icat s))"
proof -
  let ?tm = "get_totals_for_scheme rows"
  let ?side = "fst (resolve_parties (report_extract_party_values_from_scheme ccat scat s)
                      (select_the_party s))"
  let ?c = "if ?side = ''Selling'' then ''Customer'' else ''Supplier''"
  have rows_eq: "scheme_rows ccat scat icat rows s
      = concat (map (\<lambda>pn. map (make_row s ?tm ?c pn) (resolved_items icat s)) (all_parties ?tm))"
    using assms by (simp add: scheme_rows_def Let_def comp_def)
  have cells: "map (\<lambda>r. (party_name r, item_or_group r))
                 (concat (map (\<lambda>pn. map (make_row s ?tm c pn) items) ps))
               = List.product ps (map (\<lambda>i. or_default i ''-'') items)"
    if "\<forall>p\<in>set ps. p \<noteq> []" for c ps items
    using that by (induction ps) (simp_all add: make_row_cell comp_def)
  have ne: "\<forall>p\<in>set (all_parties ?tm). p \<noteq> []"
    by (simp add: all_parties_nonempty)
  show ?thesis
    unfolding rows_eq by (rule cells [OF ne])
qed

lemma strip_selling: "strip ''Selling'' = ''Selling''"
  by (simp add: strip_def is_space_def)

lemma ex_report_parties:
  "report_extract_party_values_from_scheme [] [] ex_amount_scheme
     = \<lparr> customers = {}, customer_groups = {}, territories = {}, suppliers = {}, supplier_groups = {} \<rparr>"
  by (simp add: report_extract_party_values_from_scheme_def ex_amount_scheme_def blank_scheme_def
        List.map_filter_simps)

lemma ex_resolve:
  "resolve_parties
     \<lparr> customers = {}, customer_groups = {}, territories = {}, suppliers = {}, supplier_groups = {} \<rparr>
     (Some ''Selling'') = (''Selling'', [])"
  by (simp add: resolve_parties_def strip_selling)

lemma ex_items: "resolved_items [] ex_amount_scheme = [Some ''ITEM-A'']"
  by (simp add: resolved_items_def report_extract_item_codes_from_scheme_def ex_amount_scheme_def
        blank_scheme_def List.map_filter_simps row_value_def)

lemma ex_totals:
  "get_totals_for_scheme ex_sql =
     [((Some ''CUST-1'', Some ''ITEM-A''), \<lparr> total_amount = Some 1200, total_qty = Some 3 \<rparr>),
      ((Some ''CUST-2'', Some ''ITEM-A''), \<lparr> total_amount = Some 900, total_qty = Some 2 \<rparr>)]"
  by (simp add: get_totals_for_scheme_def ex_sql_def)

lemma ex_all_parties: "all_parties (get_totals_for_scheme ex_sql) = [''CUST-1'', ''CUST-2'']"
  by (simp add: ex_totals all_parties_def)

subsection \<open>Party scope: the report expands, the matcher does not\<close>

text \<open>
  Claim C2 says that the party scope used for matching expands customer groups,
  territories and supplier groups through the catalog into the flat set the matcher
  tests the invoice's party against. Only the report's extractor expands. The hook's
  extractor has no catalog at all: with customer group \<open>Retail\<close> declared and customer
  \<open>CUST-1\<close> in that group, the matcher's customer set stays empty, and an invoice of
  \<open>CUST-1\<close> that carries no customer group of its own fails the match.
\<close>

theorem matcher_scope_not_expanded_counterexample:
  "''CUST-1'' \<in> set (customers_in_groups
                       [\<lparr> cust_id = ''CUST-1'', cust_group = ''Retail'', cust_territory = ''North'' \<rparr>]
                       {''Retail''})
   \<and> ''CUST-1'' \<in> customers (report_extract_party_values_from_scheme
                       [\<lparr> cust_id = ''CUST-1'', cust_group = ''Retail'', cust_territory = ''North'' \<rparr>] []
                       (blank_scheme\<lparr> customer_group := StrRows [''Retail''] \<rparr>))
   \<and> customers (extract_party_values_from_scheme (blank_scheme\<lparr> customer_group := StrRows [''Retail''] \<rparr>))
       = {}
   \<and> \<not> invoice_party_matches ex_invoice
         (extract_party_values_from_scheme (blank_scheme\<lparr> customer_group := StrRows [''Retail''] \<rparr>))"
  by (simp add: customers_in_groups_def report_extract_party_values_from_scheme_def
        extract_party_values_from_scheme_def invoice_party_matches_def dimension_fails_def
        blank_scheme_def ex_invoice_def blank_invoice_def List.map_filter_simps)

text \<open>
  Claim C2, amended. The report's resolved scope holds, as customers, the declared
  customers together with the catalog customers whose group is a declared customer group
  or whose territory is a declared territory, and, as suppliers, the declared suppliers
  together with the catalog suppliers whose group is a declared supplier group (empty
  names dropped). The matcher of the submit hook works on the declared sets as they are:
  a Sales Invoice matches exactly when each of the customer, customer-group and territory
  sets is empty or contains the invoice's own attribute of that name, a Purchase Invoice
  likewise with the supplier and supplier-group sets.
\<close>

theorem party_scope_expansion:
  "customers (report_extract_party_values_from_scheme ccat scat s)
     = {c. c \<noteq> [] \<and>
           (c \<in> report_extract_values_from_child_rows (customer s) [''customer'', ''value'']
            \<or> (\<exists>e \<in> set ccat. cust_id e = c \<and> cust_group e \<in>
                  report_extract_values_from_child_rows (customer_group s) [''customer_group'', ''group''])
            \<or> (\<exists>e \<in> set ccat. cust_id e = c \<and> cust_territory e \<in>
                  report_extract_values_from_child_rows (territory s) [''territory'', ''value'']))}
   \<and> suppliers (report_extract_party_values_from_scheme ccat scat s)
     = {c. c \<noteq> [] \<and>
           (c \<in> report_extract_values_from_child_rows (supplier s) [''supplier'', ''value'']
            \<or> (\<exists>e \<in> set scat. sup_id e = c \<and> sup_group e \<in>
                  report_extract_values_from_child_rows (supplier_group s) [''supplier_group'', ''group'']))}
   \<and> (inv_doctype doc = ''Sales Invoice'' \<longrightarrow>
         (invoice_party_matches doc (extract_party_values_from_scheme s) \<longleftrightarrow>
            (extract_values_from_child_rows (customer s) [''customer'', ''item'', ''value''] = {}
               \<or> (\<exists>x. inv_customer doc = Some x \<and> x \<noteq> [] \<and>
                     x \<in> extract_values_from_child_rows (customer s) [''customer'', ''item'', ''value'']))
            \<and> (extract_values_from_child_rows (customer_group s)
                    [''customer_group'', ''item'', ''value'', ''group''] = {}
               \<or> (\<exists>x. inv_customer_group doc = Some x \<and> x \<noteq> [] \<and>
                     x \<in> extract_values_from_child_rows (customer_group s)
                           [''customer_group'', ''item'', ''value'', ''group'']))
            \<and> (extract_values_from_child_rows (territory s) [''territory'', ''item'', ''value''] = {}
               \<or> (\<exists>x. inv_territory doc = Some x \<and> x \<noteq> [] \<and>
                     x \<in> extract_values_from_child_rows (territory s) [''territory'', ''item'', ''value'']))))
   \<and> (inv_doctype doc = ''Purchase Invoice'' \<longrightarrow>
         (invoice_party_matches doc (extract_party_values_from_scheme s) \<longleftrightarrow>
            (extract_values_from_child_rows (supplier s) [''supplier'', ''item'', ''value''] = {}
               \<or> (\<exists>x. inv_supplier doc = Some x \<and> x \<noteq> [] \<and>
                     x \<in> extract_values_from_child_rows (supplier s) [''supplier'', ''item'', ''value'']))
            \<and> (extract_values_from_child_rows (supplier_group s)
                    [''supplier_group'', ''item'', ''value'', ''group''] = {}
               \<or> (\<exists>x. inv_supplier_group doc = Some x \<and> x \<noteq> [] \<and>
                     x \<in> extract_values_from_child_rows (supplier_group s)
                           [''supplier_group'', ''item'', ''value'', ''group'']))))"
proof (intro conjI)
  show "customers (report_extract_party_values_from_scheme ccat scat s)
     = {c. c \<noteq> [] \<and>
           (c \<in> report_extract_values_from_child_rows (customer s) [''customer'', ''value'']
            \<or> (\<exists>e \<in> set ccat. cust_id e = c \<and> cust_group e \<in>
                  report_extract_values_from_child_rows (customer_group s) [''customer_group'', ''group''])
            \<or> (\<exists>e \<in> set ccat. cust_id e = c \<and> cust_territory e \<in>
                  report_extract_values_from_child_rows (territory s) [''territory'', ''value'']))}"
    by (auto simp: report_extract_party_values_from_scheme_def Let_def customers_in_groups_def
          customers_in_territories_def)
  show "suppliers (report_extract_party_values_from_scheme ccat scat s)
     = {c. c \<noteq> [] \<and>
           (c \<in> report_extract_values_from_child_rows (supplier s) [''supplier'', ''value'']
            \<or> (\<exists>e \<in> set scat. sup_id e = c \<and> sup_group e \<in>
                  report_extract_values_from_child_rows (supplier_group s) [''supplier_group'', ''group'']))}"
    by (auto simp: report_extract_party_values_from_scheme_def Let_def suppliers_in_groups_def)
  show "inv_doctype doc = ''Sales Invoice'' \<longrightarrow>
         (invoice_party_matches doc (extract_party_values_from_scheme s) \<longleftrightarrow>
            (extract_values_from_child_rows (customer s) [''customer'', ''item'', ''value''] = {}
               \<or> (\<exists>x. inv_customer doc = Some x \<and> x \<noteq> [] \<and>
                     x \<in> extract_values_from_child_rows (customer s) [''customer'', ''item'', ''value'']))
            \<and> (extract_values_from_child_rows (customer_group s)
                    [''customer_group'', ''item'', ''value'', ''group''] = {}
               \<or> (\<exists>x. inv_customer_group doc = Some x \<and> x \<noteq> [] \<and>
                     x \<in> extract_values_from_child_rows (customer_group s)
                           [''customer_group'', ''item'', ''value'', ''group'']))
            \<and> (extract_values_from_child_rows (territory s) [''territory'', ''item'', ''value''] = {}
               \<or> (\<exists>x. inv_territory doc = Some x \<and> x \<noteq> [] \<and>
                     x \<in> extract_values_from_child_rows (territory s) [''territory'', ''item'', ''value''])))"
    by (auto simp: invoice_party_matches_def extract_party_values_from_scheme_def
          dimension_fails_def split: option.splits)
  show "inv_doctype doc = ''Purchase Invoice'' \<longrightarrow>
         (invoice_party_matches doc (extract_party_values_from_scheme s) \<longleftrightarrow>
            (extract_values_from_child_rows (supplier s) [''supplier'', ''item'', ''value''] = {}
               \<or> (\<exists>x. inv_supplier doc = Some x \<and> x \<noteq> [] \<and>
                     x \<in> extract_values_from_child_rows (supplier s) [''supplier'', ''item'', ''value'']))
            \<and> (extract_values_from_child_rows (supplier_group s)
                    [''supplier_group'', ''item'', ''value'', ''group''] = {}
               \<or> (\<exists>x. inv_supplier_group doc = Some x \<and> x \<noteq> [] \<and>
                     x \<in> extract_values_from_child_rows (supplier_group s)
                           [''supplier_group'', ''item'', ''value'', ''group''])))"
    by (auto simp: invoice_party_matches_def extract_party_values_from_scheme_def
          dimension_fails_def split: option.splits)
qed

theorem party_scope_expansion_witness:
  "''CUST-1'' \<in> customers (report_extract_party_values_from_scheme
                     [\<lparr> cust_id = ''CUST-1'', cust_group = ''Retail'', cust_territory = ''North'' \<rparr>] []
                     (blank_scheme\<lparr> customer_group := StrRows [''Retail''] \<rparr>))
   \<and> invoice_party_matches (ex_invoice\<lparr> inv_customer_group := Some ''Retail'' \<rparr>)
       (extract_party_values_from_scheme (blank_scheme\<lparr> customer_group := StrRows [''Retail''] \<rparr>))
   \<and> \<not> invoice_party_matches (ex_invoice\<lparr> inv_customer_group := Some ''Wholesale'' \<rparr>)
       (extract_party_values_from_scheme (blank_scheme\<lparr> customer_group := StrRows [''Retail''] \<rparr>))"
  using party_scope_expansion
      [of "[\<lparr> cust_id = ''CUST-1'', cust_group = ''Retail'', cust_territory = ''North'' \<rparr>]" "[]"
          "blank_scheme\<lparr> customer_group := StrRows [''Retail''] \<rparr>"
          "ex_invoice\<lparr> inv_customer_group := Some ''Retail'' \<rparr>"]
    party_scope_expansion
      [of "[]" "[]" "blank_scheme\<lparr> customer_group := StrRows [''Retail''] \<rparr>"
          "ex_invoice\<lparr> inv_customer_group := Some ''Wholesale'' \<rparr>"]
  by (simp add: blank_scheme_def ex_invoice_def blank_invoice_def List.map_filter_simps)

subsection \<open>Eligibility label of a report cell\<close>

text \<open>
  Claim C3 says that the report labels a cell Eligible exactly when the aggregate reaches
  the threshold, as the submit hook decides on the matched items. The report asks in
  addition that the threshold be positive. A scheme with minimum amount -1 passes the
  validation on save; its cell with total amount 1200 is labelled Not Eligible although
  1200 reaches the threshold, while the hook applies the discount of the same scheme to
  an invoice whose matched amount is 1000. A minimum amount that is 0 or unset behaves
  the same way in both places.
\<close>

theorem report_label_counterexample:
  "validate (ex_amount_scheme\<lparr> minimum_amount := Some (- 1) \<rparr>) = Inr ()
   \<and> map (\<lambda>r. (party_name r, invoice_amount r, eligibility_status r))
       (scheme_rows [] [] []
          [\<lparr> r_party_name = Some ''CUST-1'', r_item_code = Some ''ITEM-A'',
             r_total_amount = Some 1200, r_total_qty = Some 3 \<rparr>]
          (ex_amount_scheme\<lparr> minimum_amount := Some (- 1) \<rparr>))
       = [(''CUST-1'', 1200, ''Not Eligible'')]
   \<and> flt (minimum_amount (ex_amount_scheme\<lparr> minimum_amount := Some (- 1) \<rparr>)) \<le> 1200
   \<and> apply_scheme [] ex_invoice (ex_amount_scheme\<lparr> minimum_amount := Some (- 1) \<rparr>)
       = apply_discount_to_invoice ex_invoice [0] 10 ''S1''"
proof (intro conjI)
  show "validate (ex_amount_scheme\<lparr> minimum_amount := Some (- 1) \<rparr>) = Inr ()"
    by (simp add: validate_def validate_dates_def validate_condition_fields_def
          validate_apply_on_exclusivity_def ex_amount_scheme_def blank_scheme_def)
  show "map (\<lambda>r. (party_name r, invoice_amount r, eligibility_status r))
       (scheme_rows [] [] []
          [\<lparr> r_party_name = Some ''CUST-1'', r_item_code = Some ''ITEM-A'',
             r_total_amount = Some 1200, r_total_qty = Some 3 \<rparr>]
          (ex_amount_scheme\<lparr> minimum_amount := Some (- 1) \<rparr>))
       = [(''CUST-1'', 1200, ''Not Eligible'')]"
    by (simp add: scheme_rows_def resolve_parties_def resolved_items_def all_parties_def
          get_totals_for_scheme_def make_row_def eligible_def or_default_def
          report_extract_party_values_from_scheme_def report_extract_item_codes_from_scheme_def
          row_value_def strip_selling ex_amount_scheme_def blank_scheme_def List.map_filter_simps)
  show "flt (minimum_amount (ex_amount_scheme\<lparr> minimum_amount := Some (- 1) \<rparr>)) \<le> 1200"
    by simp
  have "apply_scheme [] ex_invoice (ex_amount_scheme\<lparr> minimum_amount := Some (- 1) \<rparr>)
          = apply_validation ex_invoice [0] (ex_amount_scheme\<lparr> minimum_amount := Some (- 1) \<rparr>)"
    by (rule apply_scheme_matched)
       (simp_all add: invoice_party_matches_def extract_party_values_from_scheme_def
          extract_item_codes_from_scheme_def row_value_def matching_items_of_def
          ex_amount_scheme_def blank_scheme_def ex_invoice_def ex_line_def blank_invoice_def
          blank_item_def List.map_filter_simps)
  also have "\<dots> = apply_discount_to_invoice ex_invoice [0] 10 ''S1''"
    by (simp add: apply_validation_def ex_amount_scheme_def blank_scheme_def ex_invoice_def
          ex_line_def blank_invoice_def blank_item_def)
  finally show "apply_scheme [] ex_invoice (ex_amount_scheme\<lparr> minimum_amount := Some (- 1) \<rparr>)
       = apply_discount_to_invoice ex_invoice [0] 10 ''S1''" .
qed

text \<open>
  Claim C3, amended. For every row the report builds for a scheme: under the amount rule
  the row is labelled Eligible exactly when the minimum amount is positive and the row's
  total amount is at least the minimum amount; under the quantity rule exactly when the
  minimum quantity is positive and the row's total quantity is at least the minimum
  quantity. For a positive threshold this is the inclusive comparison of the submit hook.
\<close>

theorem report_label_positive_threshold:
  assumes "r \<in> set (scheme_rows ccat scat icat rows s)"
  shows "(type_of_promo_validation s = Some ''Based on Minimum Amount'' \<longrightarrow>
            (eligibility_status r = ''Eligible'' \<longleftrightarrow>
               0 < flt (minimum_amount s) \<and> flt (minimum_amount s) \<le> invoice_amount r))
       \<and> (type_of_promo_validation s = Some ''Based on Minimum Quantity'' \<longrightarrow>
            (eligibility_status r = ''Eligible'' \<longleftrightarrow>
               0 < flt (minimum_quantity s) \<and> flt (minimum_quantity s) \<le> invoice_qty r))"
proof -
  from assms obtain pt pn ic where r: "r = make_row s (get_totals_for_scheme rows) pt pn ic"
    by (auto dest: scheme_rows_elem)
  have status: "eligibility_status r = ''Eligible'' \<longleftrightarrow> eligible s (invoice_amount r) (invoice_qty r)"
    unfolding r by (subst make_row_status) simp
  show ?thesis
    by (simp add: status eligible_amount eligible_quantity)
qed

theorem report_label_positive_threshold_witness:
  "eligibility_status (make_row ex_amount_scheme (get_totals_for_scheme ex_sql) ''Customer'' ''CUST-1''
       (Some ''ITEM-A'')) = ''Eligible''
   \<and> eligibility_status (make_row ex_amount_scheme (get_totals_for_scheme ex_sql) ''Customer'' ''CUST-2''
       (Some ''ITEM-A'')) = ''Not Eligible''"
proof -
  let ?r1 = "make_row ex_amount_scheme (get_totals_for_scheme ex_sql) ''Customer'' ''CUST-1'' (Some ''ITEM-A'')"
  let ?r2 = "make_row ex_amount_scheme (get_totals_for_scheme ex_sql) ''Customer'' ''CUST-2'' (Some ''ITEM-A'')"
  have fields: "type_of_promo_validation ex_amount_scheme = Some ''Based on Minimum Amount''"
    "minimum_amount ex_amount_scheme = Some 1000" "select_the_party ex_amount_scheme = Some ''Selling''"
    by (simp_all add: ex_amount_scheme_def blank_scheme_def)
  have rows: "scheme_rows [] [] [] ex_sql ex_amount_scheme = [?r1, ?r2]"
    by (simp add: scheme_rows_def Let_def ex_report_parties ex_resolve ex_items ex_all_parties fields)
  have amounts: "invoice_amount ?r1 = 1200" "invoice_amount ?r2 = 900"
    by (simp_all add: make_row_def Let_def ex_totals)
  have other: "eligibility_status ?r2 = ''Eligible'' \<or> eligibility_status ?r2 = ''Not Eligible''"
    by (subst (1 2) make_row_status) simp
  show ?thesis
    using report_label_positive_threshold [of ?r1 "[]" "[]" "[]" ex_sql ex_amount_scheme]
      report_label_positive_threshold [of ?r2 "[]" "[]" "[]" ex_sql ex_amount_scheme] other
    by (simp add: rows fields amounts)
qed

subsection \<open>Rows of a scheme without concrete parties\<close>

text \<open>
  Claim C4 says that a scheme with unrestricted party scope still gets a row, labelled
  All, when the totals hold no party. The report builds no row at all for such a scheme.
\<close>

theorem no_sentinel_row_counterexample:
  "snd (resolve_parties (report_extract_party_values_from_scheme [] [] blank_scheme)
          (select_the_party blank_scheme)) = []
   \<and> all_parties (get_totals_for_scheme []) = []
   \<and> scheme_rows [] [] [] [] blank_scheme = []
   \<and> \<not> (\<exists>r \<in> set (scheme_rows [] [] [] [] blank_scheme). party_name r = ''All'')"
  by (simp add: scheme_rows_def resolve_parties_def all_parties_def get_totals_for_scheme_def
        report_extract_party_values_from_scheme_def strip_selling blank_scheme_def
        List.map_filter_simps)

text \<open>
  Claim C4, amended. For a scheme whose party scope resolves to no concrete party, the
  rows are the cells of (observed parties) \<times> (resolved items), one row each: the parties
  are the distinct non-empty party names of the rows of the totals query, in some order,
  and each carries its own name as party label. When the totals hold no party, the scheme
  gets no row.
\<close>

theorem unrestricted_rows_from_observed_parties:
  assumes "snd (resolve_parties (report_extract_party_values_from_scheme ccat scat s)
                  (select_the_party s)) = []"
  shows "\<exists>ps. distinct ps
            \<and> set ps = {p. p \<noteq> [] \<and> (\<exists>r \<in> set rows. r_party_name r = Some p)}
            \<and> map (\<lambda>r. (party_name r, item_or_group r)) (scheme_rows ccat scat icat rows s)
                = List.product ps (map (\<lambda>i. or_default i ''-'') (resolved_items icat s))
            \<and> (ps = [] \<longrightarrow> scheme_rows ccat scat icat rows s = [])"
proof -
  let ?ps = "all_parties (get_totals_for_scheme rows)"
  have cells: "map (\<lambda>r. (party_name r, item_or_group r)) (scheme_rows ccat scat icat rows s)
                = List.product ?ps (map (\<lambda>i. or_default i ''-'') (resolved_items icat s))"
    using assms by (rule scheme_rows_unrestricted)
  have none: "scheme_rows ccat scat icat rows s = []" if "?ps = []"
    using cells that by simp
  from all_parties_distinct all_parties_set cells none show ?thesis
    by blast
qed

theorem unrestricted_rows_from_observed_parties_witness:
  "\<exists>ps. distinct ps \<and> set ps = {''CUST-1'', ''CUST-2''}
        \<and> map (\<lambda>r. (party_name r, item_or_group r)) (scheme_rows [] [] [] ex_sql ex_amount_scheme)
            = List.product ps [''ITEM-A'']"
proof -
  have side: "select_the_party ex_amount_scheme = Some ''Selling''"
    by (simp add: ex_amount_scheme_def blank_scheme_def)
  have unrestricted: "snd (resolve_parties (report_extract_party_values_from_scheme [] [] ex_amount_scheme)
                  (select_the_party ex_amount_scheme)) = []"
    by (simp add: ex_report_parties ex_resolve side)
  have observed: "{p. p \<noteq> [] \<and> (\<exists>r \<in> set ex_sql. r_party_name r = Some p)} = {''CUST-1'', ''CUST-2''}"
    by (auto simp: ex_sql_def)
  from unrestricted_rows_from_observed_parties [OF unrestricted, of ex_sql "[]"]
  obtain ps where ps: "distinct ps"
    "set ps = {p. p \<noteq> [] \<and> (\<exists>r \<in> set ex_sql. r_party_name r = Some p)}"
    "map (\<lambda>r. (party_name r, item_or_group r)) (scheme_rows [] [] [] ex_sql ex_amount_scheme)
       = List.product ps (map (\<lambda>i. or_default i ''-'') (resolved_items [] ex_amount_scheme))"
    by blast
  show ?thesis
    by (rule exI [of _ ps]) (simp add: ps observed ex_items or_default_def)
qed

end
